theory Spec2Isabelle
  imports Complex_Main
begin

section \<open>The driving simulation of \<open>src/main.js\<close>\<close>

text \<open>
  The program is one JavaScript module. Its simulation core is the function \<open>update(dt)\<close>,
  called once per animation frame by \<open>animate(now)\<close>; it mutates a handful of module-level
  variables (\<open>speed\<close>, \<open>rpm\<close>, \<open>steeringInput\<close>, ...), fields of Three.js scene objects
  (\<open>car.position\<close>, \<open>car.rotation.y\<close>, the traffic meshes) and the text of HUD elements.

  The embedding passes this state explicitly, as the record \<open>sim\<close>. JavaScript numbers
  are modelled as mathematical reals: sums and products are exact, and there is no NaN and
  no infinity. A property that the rounding of a single double operation decides is not
  settled by this model.
  Booleans are \<open>bool\<close>, strings are \<open>string\<close>.
\<close>

subsection \<open>Data\<close>

text \<open>A \<open>THREE.Vector3\<close>.\<close>

record vec3 =
  vx :: real
  vy :: real
  vz :: real

text \<open>
  A traffic car: the mesh's \<open>position\<close> and its \<open>userData.speed\<close> (km/h). Geometry and
  material take no part in the simulation.
\<close>

record mesh =
  position :: vec3
  userData_speed :: real

text \<open>
  The key table \<open>keys\<close> is an object indexed by lower-cased key names; a key that was never
  pressed is absent (\<open>undefined\<close>, which is falsy).
\<close>

type_synonym keys = "string \<rightharpoonup> bool"

definition held :: "keys \<Rightarrow> string \<Rightarrow> bool" where
  "held ks k = (ks k = Some True)"

text \<open>
  The mutable state: the module-level \<open>let\<close> variables (lines 117--128), the scene-object
  fields that \<open>update\<close> writes, the HUD texts, and \<open>randomCalls\<close>, the number of calls of
  \<open>Math.random()\<close> made so far. \<open>speedEl_text\<close> and \<open>rpmEl_text\<close> hold the integer that
  \<open>toFixed(0)\<close> prints, not its decimal digits.
\<close>

record sim =
  speed :: real
  rpm :: real
  gear :: string
  steeringInput :: real
  steeringAngle :: real
  leftSignal :: bool
  rightSignal :: bool
  signalBlink :: bool
  signalTimer :: real
  lastTime :: real
  car_position :: vec3
  car_rotation_y :: real
  steeringWheel_rotation_y :: real
  road_position_z :: real
  laneLines_position_z :: real
  traffic :: "mesh list"
  leftSignalMesh_emissive :: nat
  rightSignalMesh_emissive :: nat
  speedEl_text :: int
  rpmEl_text :: int
  gearEl_text :: string
  signalEl_text :: string
  randomCalls :: nat

subsection \<open>Constants and library functions\<close>

definition roadWidth :: real where
  "roadWidth = 12"

definition laneCount :: real where
  "laneCount = 4"

text \<open>
  \<open>THREE.MathUtils.lerp\<close> of three.js 0.160.0, the library imported in line 1: the body of
  the library function is \<open>return (1 - t) * x + t * y\<close>. It does not clamp \<open>t\<close>.
\<close>

definition lerp :: "real \<Rightarrow> real \<Rightarrow> real \<Rightarrow> real" where
  "lerp x y t = (1 - t) * x + t * y"

text \<open>
  \<open>new THREE.Vector3(0, 0, -1).applyQuaternion(car.quaternion)\<close>: the car is only ever
  rotated about the Y axis (\<open>car.rotation.y\<close>), and rotating \<open>(0, 0, -1)\<close> about Y by the
  angle \<open>yaw\<close> gives \<open>(- sin yaw, 0, - cos yaw)\<close>.
\<close>

definition forward :: "real \<Rightarrow> vec3" where
  "forward yaw = \<lparr>vx = - sin yaw, vy = 0, vz = - cos yaw\<rparr>"

text \<open>\<open>Vector3.addScaledVector(v, s)\<close>.\<close>

definition addScaledVector :: "vec3 \<Rightarrow> vec3 \<Rightarrow> real \<Rightarrow> vec3" where
  "addScaledVector p v s = \<lparr>vx = vx p + vx v * s, vy = vy p + vy v * s, vz = vz p + vz v * s\<rparr>"

text \<open>
  \<open>x.toFixed(0)\<close> prints the integer nearest to \<open>x\<close>, the larger one on a tie.
\<close>

definition toFixed0 :: "real \<Rightarrow> int" where
  "toFixed0 x = \<lfloor>x + 1 / 2\<rfloor>"


subsection \<open>Traffic\<close>

text \<open>Lane centre, lines 102--103 and 181--182.\<close>

definition laneX :: "real \<Rightarrow> real" where
  "laneX r = (of_int \<lfloor>r * laneCount\<rfloor> - (laneCount - 1) / 2) * (roadWidth / laneCount)"

text \<open>
  \<open>spawnTrafficCar()\<close>, lines 99--108: three calls of \<open>Math.random()\<close>, for the lane, the
  distance ahead and the cruise speed; the new mesh is pushed at the end of \<open>traffic\<close>.
\<close>

definition spawnTrafficCar :: "(nat \<Rightarrow> real) \<Rightarrow> mesh list \<times> nat \<Rightarrow> mesh list \<times> nat" where
  "spawnTrafficCar rnd tn =
     (case tn of (ts, n) \<Rightarrow>
        (ts @ [\<lparr>position = \<lparr>vx = laneX (rnd n), vy = 0.6, vz = - rnd (n + 1) * 200 - 50\<rparr>,
                userData_speed = 60 + rnd (n + 2) * 80\<rparr>],
         n + 3))"

text \<open>
  The body of the loop \<open>for (const t of traffic)\<close>, lines 175--185, for one car \<open>t\<close>:
  \<open>v\<close> is the ego speed of this tick, \<open>carZ\<close> the ego's z after its move, \<open>n\<close> the number of
  random draws so far.
\<close>

definition trafficStep :: "(nat \<Rightarrow> real) \<Rightarrow> real \<Rightarrow> real \<Rightarrow> real \<Rightarrow> nat \<Rightarrow> mesh \<Rightarrow> mesh \<times> nat" where
  "trafficStep rnd v carZ dt n t =
     (let relSpeed = userData_speed t - v;
          dz = (relSpeed / 3.6) * dt;
          p = (position t)\<lparr>vz := vz (position t) + dz\<rparr>
      in if vz p > carZ + 50
         then (\<lparr>position = \<lparr>vx = laneX (rnd n), vy = 0.6, vz = carZ - 150 - rnd (n + 1) * 150\<rparr>,
                userData_speed = 60 + rnd (n + 2) * 80\<rparr>,
               n + 3)
         else (t\<lparr>position := p\<rparr>, n))"

fun trafficLoop :: "(nat \<Rightarrow> real) \<Rightarrow> real \<Rightarrow> real \<Rightarrow> real \<Rightarrow> nat \<Rightarrow> mesh list \<Rightarrow> mesh list \<times> nat" where
  "trafficLoop rnd v carZ dt n [] = ([], n)"
| "trafficLoop rnd v carZ dt n (t # ts) =
     (case trafficStep rnd v carZ dt n t of (t', n') \<Rightarrow>
        (case trafficLoop rnd v carZ dt n' ts of (ts', n'') \<Rightarrow> (t' # ts', n'')))"

subsection \<open>Steering, signals and the HUD text\<close>

text \<open>Line 153.\<close>

definition steeringStrength :: "real \<Rightarrow> real" where
  "steeringStrength v = lerp 1.8 0.4 (v / 200)"

text \<open>Lines 220--223: the text written to \<open>signalEl\<close>.\<close>

definition signalText :: "bool \<Rightarrow> bool \<Rightarrow> bool \<Rightarrow> string" where
  "signalText l r b =
     (if l \<and> r \<and> b then ''Hazard''
      else if l \<and> b then ''Left''
      else if r \<and> b then ''Right''
      else ''Off'')"

subsection \<open>The per-frame update\<close>

text \<open>
  \<open>update(dt)\<close>, lines 130--224, statement by statement; each \<open>let\<close> names the value a
  variable has after the corresponding assignment.
\<close>

definition update :: "(nat \<Rightarrow> real) \<Rightarrow> keys \<Rightarrow> real \<Rightarrow> sim \<Rightarrow> sim" where
  "update rnd ks dt s =
     (let accel = 120; brake = 200; drag = 0.35;
          speed1 = (if held ks ''w'' then speed s + accel * dt else speed s);
          speed2 = (if held ks ''s'' then speed1 - brake * dt else speed1);
          speed3 = speed2 - speed2 * drag * dt;
          speed4 = max 0 (min 260 speed3);
          rpm1 = 900 + speed4 * 40 + (if held ks ''w'' then 500 else 0);
          rpm2 = min 7500 rpm1;
          si1 = (if held ks ''a'' then steeringInput s + 3 * dt else steeringInput s);
          si2 = (if held ks ''d'' then si1 - 3 * dt else si1);
          si3 = max (- 1) (min 1 si2);
          si4 = si3 * 0.9;
          yawDelta = si4 * steeringStrength speed4 * dt;
          distance = (speed4 / 3.6) * dt;
          pos = addScaledVector (car_position s) (forward (car_rotation_y s)) distance;
          yaw = car_rotation_y s + yawDelta;
          sa = si4 * 0.7;
          carZ = vz pos;
          tl = trafficLoop rnd speed4 carZ dt (randomCalls s) (traffic s);
          l1 = (if held ks ''z'' then True else leftSignal s);
          r1 = (if held ks ''z'' then False else rightSignal s);
          r2 = (if held ks ''x'' then True else r1);
          l2 = (if held ks ''x'' then False else l1);
          l3 = (if held ks ''z'' \<and> held ks ''x'' then False else l2);
          r3 = (if held ks ''z'' \<and> held ks ''x'' then False else r2);
          timer1 = signalTimer s + dt;
          timer2 = (if timer1 > 0.5 then 0 else timer1);
          blink = (if timer1 > 0.5 then \<not> signalBlink s else signalBlink s)
      in s\<lparr>speed := speed4,
           rpm := rpm2,
           steeringInput := si4,
           steeringAngle := sa,
           leftSignal := l3,
           rightSignal := r3,
           signalBlink := blink,
           signalTimer := timer2,
           car_position := pos,
           car_rotation_y := yaw,
           steeringWheel_rotation_y := sa + pi,
           road_position_z := carZ - 50,
           laneLines_position_z := carZ - 50,
           traffic := fst tl,
           leftSignalMesh_emissive := (if l3 \<and> blink then 0xffaa00 else 0x000000),
           rightSignalMesh_emissive := (if r3 \<and> blink then 0xffaa00 else 0x000000),
           speedEl_text := toFixed0 speed4,
           rpmEl_text := toFixed0 rpm2,
           gearEl_text := gear s,
           signalEl_text := signalText l3 r3 blink,
           randomCalls := snd tl\<rparr>)"

text \<open>
  \<open>animate(now)\<close>, lines 226--233: the elapsed time is capped at 0.05 s; rendering and the
  request for the next frame change no simulation state.
\<close>

definition animate :: "(nat \<Rightarrow> real) \<Rightarrow> keys \<Rightarrow> real \<Rightarrow> sim \<Rightarrow> sim" where
  "animate rnd ks now s =
     (let dt = min 0.05 ((now - lastTime s) / 1000)
      in update rnd ks dt (s\<lparr>lastTime := now\<rparr>))"

subsection \<open>The initial state and runs\<close>

text \<open>
  The state when the module has been evaluated: ten traffic cars were spawned (line 110),
  the variables hold their initialisers, the car is at the origin with no rotation (the
  Three.js defaults), and \<open>lastTime\<close> is the value \<open>t0\<close> of \<open>performance.now()\<close>. The HUD
  texts are first written by \<open>update\<close>; until then they are taken as empty.
\<close>

definition spawnAll :: "(nat \<Rightarrow> real) \<Rightarrow> mesh list \<times> nat" where
  "spawnAll rnd = ((spawnTrafficCar rnd) ^^ 10) ([], 0)"

definition init :: "(nat \<Rightarrow> real) \<Rightarrow> real \<Rightarrow> sim" where
  "init rnd t0 =
     \<lparr>speed = 0, rpm = 800, gear = ''D'', steeringInput = 0, steeringAngle = 0,
      leftSignal = False, rightSignal = False, signalBlink = False, signalTimer = 0,
      lastTime = t0,
      car_position = \<lparr>vx = 0, vy = 0, vz = 0\<rparr>, car_rotation_y = 0,
      steeringWheel_rotation_y = 0, road_position_z = 0, laneLines_position_z = 0,
      traffic = fst (spawnAll rnd),
      leftSignalMesh_emissive = 0x000000, rightSignalMesh_emissive = 0x000000,
      speedEl_text = 0, rpmEl_text = 0, gearEl_text = '''', signalEl_text = '''',
      randomCalls = snd (spawnAll rnd)\<rparr>"

text \<open>
  A run: the ticks \<open>update(dt)\<close> for a list of frames, each with its elapsed time and the
  key table read in that tick.
\<close>

fun run :: "(nat \<Rightarrow> real) \<Rightarrow> (real \<times> keys) list \<Rightarrow> sim \<Rightarrow> sim" where
  "run rnd [] s = s"
| "run rnd ((dt, ks) # fs) s = run rnd fs (update rnd ks dt s)"

subsection \<open>Slices of the update and concrete inputs\<close>

text \<open>
  Two slices of \<open>update\<close>, named so that the theorems can speak of them: the speed after
  lines 136--140 and the steering input after lines 147--150. The lemmas \<open>update_speed\<close>
  and \<open>update_steeringInput\<close> below show that they are what \<open>update\<close> stores.
\<close>

definition speed_next :: "keys \<Rightarrow> real \<Rightarrow> real \<Rightarrow> real" where
  "speed_next ks dt v =
     (let speed1 = (if held ks ''w'' then v + 120 * dt else v);
          speed2 = (if held ks ''s'' then speed1 - 200 * dt else speed1);
          speed3 = speed2 - speed2 * 0.35 * dt
      in max 0 (min 260 speed3))"

definition steer_next :: "keys \<Rightarrow> real \<Rightarrow> real \<Rightarrow> real" where
  "steer_next ks dt x =
     (let si1 = (if held ks ''a'' then x + 3 * dt else x);
          si2 = (if held ks ''d'' then si1 - 3 * dt else si1)
      in max (- 1) (min 1 si2) * 0.9)"

text \<open>A random source that always returns one half, for the concrete examples.\<close>

definition rnd0 :: "nat \<Rightarrow> real" where
  "rnd0 n = 1 / 2"


section \<open>Properties\<close>

subsection \<open>What each field holds after a tick\<close>

lemma update_speed: "speed (update rnd ks dt s) = speed_next ks dt (speed s)"
  unfolding update_def speed_next_def Let_def by (simp split del: if_split)

lemma update_rpm:
  "rpm (update rnd ks dt s) =
     min 7500 (900 + speed_next ks dt (speed s) * 40 + (if held ks ''w'' then 500 else 0))"
  unfolding update_def speed_next_def Let_def by (simp split del: if_split)

lemma update_steeringInput:
  "steeringInput (update rnd ks dt s) = steer_next ks dt (steeringInput s)"
  unfolding update_def steer_next_def Let_def by (simp split del: if_split)

lemma update_steeringAngle:
  "steeringAngle (update rnd ks dt s) = steer_next ks dt (steeringInput s) * 0.7"
  unfolding update_def steer_next_def Let_def by (simp split del: if_split)

lemma update_signalTimer:
  "signalTimer (update rnd ks dt s) = (if signalTimer s + dt > 0.5 then 0 else signalTimer s + dt)"
  unfolding update_def Let_def by (simp split del: if_split)

lemma update_signalBlink:
  "signalBlink (update rnd ks dt s) = (if signalTimer s + dt > 0.5 then \<not> signalBlink s else signalBlink s)"
  unfolding update_def Let_def by (simp split del: if_split)

lemma update_leftSignal:
  "leftSignal (update rnd ks dt s) =
     (if held ks ''z'' \<and> held ks ''x'' then False
      else if held ks ''x'' then False
      else if held ks ''z'' then True else leftSignal s)"
  unfolding update_def Let_def by (simp split del: if_split)

lemma update_rightSignal:
  "rightSignal (update rnd ks dt s) =
     (if held ks ''z'' \<and> held ks ''x'' then False
      else if held ks ''x'' then True
      else if held ks ''z'' then False else rightSignal s)"
  unfolding update_def Let_def by (simp split del: if_split)

lemma update_car_position:
  "car_position (update rnd ks dt s) =
     addScaledVector (car_position s) (forward (car_rotation_y s)) ((speed_next ks dt (speed s) / 3.6) * dt)"
  unfolding update_def speed_next_def Let_def by (simp split del: if_split)

lemma update_car_rotation_y:
  "car_rotation_y (update rnd ks dt s) =
     car_rotation_y s
       + steer_next ks dt (steeringInput s) * steeringStrength (speed_next ks dt (speed s)) * dt"
  unfolding update_def speed_next_def steer_next_def Let_def by (simp split del: if_split)


lemma update_signalEl_text:
  "signalEl_text (update rnd ks dt s) =
     signalText (leftSignal (update rnd ks dt s)) (rightSignal (update rnd ks dt s))
       (signalBlink (update rnd ks dt s))"
  unfolding update_def Let_def by (simp split del: if_split)

lemma clamp_speed: "0 \<le> max 0 (min 260 (x::real)) \<and> max 0 (min 260 x) \<le> 260"
  by linarith

lemma clamp_speed_id: "0 \<le> x \<Longrightarrow> x \<le> 260 \<Longrightarrow> max 0 (min 260 (x::real)) = x"
  by linarith

lemma clamp_steer_id: "\<bar>x\<bar> \<le> 1 \<Longrightarrow> max (- 1) (min 1 (x::real)) = x"
  by linarith

lemma clamp_steer_abs: "\<bar>max (- 1) (min 1 (x::real))\<bar> \<le> 1"
  by linarith

lemma clamp_steer: "\<bar>max (- 1) (min 1 (x::real)) * 0.9\<bar> \<le> 0.9"
  using clamp_steer_abs[of x] by (simp add: abs_mult)

lemma speed_next_bounds: "0 \<le> speed_next ks dt v \<and> speed_next ks dt v \<le> 260"
  unfolding speed_next_def Let_def by (rule clamp_speed)

lemma speed_next_zero_dt: "0 \<le> v \<Longrightarrow> v \<le> 260 \<Longrightarrow> speed_next ks 0 v = v"
  unfolding speed_next_def Let_def by (simp add: clamp_speed_id)

lemma steer_next_abs: "\<bar>steer_next ks dt x\<bar> \<le> 0.9"
  unfolding steer_next_def Let_def by (rule clamp_steer)

lemma steer_next_zero_dt: "\<bar>x\<bar> \<le> 1 \<Longrightarrow> steer_next ks 0 x = x * 0.9"
  unfolding steer_next_def Let_def by (simp add: clamp_steer_id)

lemma run_snoc: "run rnd (fs @ [(dt, ks)]) s = update rnd ks dt (run rnd fs s)"
  by (induction fs arbitrary: s) auto

lemma replicate_Suc_snoc: "replicate (Suc n) x = replicate n x @ [x]"
  by (simp add: replicate_append_same)

lemma run_speed_bounds: "0 \<le> speed (run rnd fs (init rnd start)) \<and> speed (run rnd fs (init rnd start)) \<le> 260"
proof (induction fs rule: rev_induct)
  case Nil
  show ?case by (simp add: init_def)
next
  case (snoc f fs)
  obtain dt ks where f: "f = (dt, ks)" by (cases f)
  show ?case unfolding f run_snoc update_speed by (rule speed_next_bounds)
qed

lemma run_steer_bound: "\<bar>steeringInput (run rnd fs (init rnd start))\<bar> \<le> 0.9"
proof (induction fs rule: rev_induct)
  case Nil
  show ?case by (simp add: init_def)
next
  case (snoc f fs)
  obtain dt ks where f: "f = (dt, ks)" by (cases f)
  show ?case unfolding f run_snoc update_steeringInput by (rule steer_next_abs)
qed

lemma run_timer_upper: "signalTimer (run rnd fs (init rnd start)) \<le> 0.5"
proof (induction fs rule: rev_induct)
  case Nil
  show ?case by (simp add: init_def)
next
  case (snoc f fs)
  obtain dt ks where f: "f = (dt, ks)" by (cases f)
  show ?case unfolding f run_snoc update_signalTimer by simp
qed

subsection \<open>A tick with no elapsed time\<close>

lemma addScaledVector_zero: "addScaledVector p v 0 = p"
  by (simp add: addScaledVector_def)

lemma update_rpm_after:
  "rpm (update rnd ks dt s) =
     min 7500 (900 + speed (update rnd ks dt s) * 40 + (if held ks ''w'' then 500 else 0))"
  unfolding update_rpm update_speed ..

text \<open>
  Claim C1, as amended. Let \<open>s\<close> be the state after any run from the initial state and
  \<open>s'\<close> the state after one more tick with \<open>dt = 0\<close>, under any key table. Then speed,
  car position, yaw, blink timer and blink phase are unchanged. The steering input is
  multiplied by 0.9 (line 150 decays it in every tick, whatever \<open>dt\<close> is) and the steering
  angle is 0.7 times the new steering input. The rpm is recomputed from the speed and the
  throttle key of this tick; it equals the old rpm when a tick went before whose throttle
  key was in the same state. The two signal flags are unchanged when neither signal key
  is held.
\<close>

theorem C1_zero_dt_tick:
  fixes rnd start fs ks
  defines "s \<equiv> run rnd fs (init rnd start)"
  defines "s' \<equiv> update rnd ks 0 s"
  shows "speed s' = speed s \<and> car_position s' = car_position s \<and>
         car_rotation_y s' = car_rotation_y s \<and>
         signalTimer s' = signalTimer s \<and> signalBlink s' = signalBlink s \<and>
         steeringInput s' = steeringInput s * 0.9 \<and>
         steeringAngle s' = steeringInput s' * 0.7 \<and>
         rpm s' = min 7500 (900 + speed s * 40 + (if held ks ''w'' then 500 else 0)) \<and>
         (fs \<noteq> [] \<and> held (snd (last fs)) ''w'' = held ks ''w'' \<longrightarrow> rpm s' = rpm s) \<and>
         (\<not> held ks ''z'' \<and> \<not> held ks ''x'' \<longrightarrow>
            leftSignal s' = leftSignal s \<and> rightSignal s' = rightSignal s)"
proof -
  have sp: "0 \<le> speed s \<and> speed s \<le> 260"
    unfolding s_def by (rule run_speed_bounds)
  have st: "\<bar>steeringInput s\<bar> \<le> 1"
    using run_steer_bound[of rnd fs start] unfolding s_def by simp
  have tm: "signalTimer s \<le> 0.5"
    unfolding s_def by (rule run_timer_upper)
  have sn: "speed_next ks 0 (speed s) = speed s"
    using sp by (simp add: speed_next_zero_dt)
  have 1: "speed s' = speed s"
    unfolding s'_def update_speed by (rule sn)
  have 2: "car_position s' = car_position s"
    unfolding s'_def update_car_position by (simp add: addScaledVector_zero)
  have 3: "car_rotation_y s' = car_rotation_y s"
    unfolding s'_def update_car_rotation_y by simp
  have 4: "signalTimer s' = signalTimer s"
    unfolding s'_def update_signalTimer using tm by simp
  have 5: "signalBlink s' = signalBlink s"
    unfolding s'_def update_signalBlink using tm by simp
  have 6: "steeringInput s' = steeringInput s * 0.9"
    unfolding s'_def update_steeringInput using st by (rule steer_next_zero_dt)
  have 7: "steeringAngle s' = steeringInput s' * 0.7"
    unfolding s'_def update_steeringAngle update_steeringInput ..
  have 8: "rpm s' = min 7500 (900 + speed s * 40 + (if held ks ''w'' then 500 else 0))"
    unfolding s'_def update_rpm sn ..
  have 9: "rpm s' = rpm s" if ne: "fs \<noteq> []" and w: "held (snd (last fs)) ''w'' = held ks ''w''"
  proof -
    obtain gs dt0 ks0 where fs: "fs = gs @ [(dt0, ks0)]"
      using ne by (metis rev_exhaust surj_pair)
    have "rpm s = min 7500 (900 + speed s * 40 + (if held ks0 ''w'' then 500 else 0))"
      unfolding s_def fs run_snoc by (rule update_rpm_after)
    moreover have "held ks0 ''w'' = held ks ''w''"
      using w by (simp add: fs)
    ultimately show ?thesis using 8 by simp
  qed
  have 10: "leftSignal s' = leftSignal s \<and> rightSignal s' = rightSignal s"
    if "\<not> held ks ''z'' \<and> \<not> held ks ''x''"
    unfolding s'_def update_leftSignal update_rightSignal using that by simp
  show ?thesis using 1 2 3 4 5 6 7 8 9 10 by blast
qed

text \<open>
  The theorem at a concrete run: one tick of 0.05 s with A and W held, then the tick with
  \<open>dt = 0\<close> and W held.
\<close>

theorem C1_zero_dt_tick_witness:
  "[(1 / 20, [''a'' \<mapsto> True, ''w'' \<mapsto> True])] \<noteq> [] \<and>
   held (snd (last [(1 / 20 :: real, [''a'' \<mapsto> True, ''w'' \<mapsto> True])])) ''w'' = held [''w'' \<mapsto> True] ''w'' \<and>
   \<not> held [''w'' \<mapsto> True] ''z'' \<and> \<not> held [''w'' \<mapsto> True] ''x'' \<and>
   rpm (update rnd0 [''w'' \<mapsto> True] 0 (run rnd0 [(1 / 20, [''a'' \<mapsto> True, ''w'' \<mapsto> True])] (init rnd0 0)))
     = rpm (run rnd0 [(1 / 20, [''a'' \<mapsto> True, ''w'' \<mapsto> True])] (init rnd0 0)) \<and>
   leftSignal (update rnd0 [''w'' \<mapsto> True] 0 (run rnd0 [(1 / 20, [''a'' \<mapsto> True, ''w'' \<mapsto> True])] (init rnd0 0)))
     = leftSignal (run rnd0 [(1 / 20, [''a'' \<mapsto> True, ''w'' \<mapsto> True])] (init rnd0 0)) \<and>
   steeringInput (update rnd0 [''w'' \<mapsto> True] 0 (run rnd0 [(1 / 20, [''a'' \<mapsto> True, ''w'' \<mapsto> True])] (init rnd0 0)))
     = steeringInput (run rnd0 [(1 / 20, [''a'' \<mapsto> True, ''w'' \<mapsto> True])] (init rnd0 0)) * 0.9"
  using C1_zero_dt_tick [where rnd = rnd0 and start = 0 and fs = "[(1 / 20, [''a'' \<mapsto> True, ''w'' \<mapsto> True])]" and ks = "[''w'' \<mapsto> True]"]
  by (simp add: held_def del: run.simps)

text \<open>
  Claim C1 as stated fails. After one tick of 0.05 s with A held the steering input is
  0.135, the rpm 900 and the left signal off. A tick with \<open>dt = 0\<close> in which W and Z are
  held then leaves the steering input at 0.1215, the rpm at 1400 and the left signal on.
\<close>

theorem C1_counterexample:
  "steeringInput (run rnd0 [(1 / 20, [''a'' \<mapsto> True])] (init rnd0 0)) = 27 / 200 \<and>
   steeringInput (update rnd0 [''w'' \<mapsto> True, ''z'' \<mapsto> True] 0
                    (run rnd0 [(1 / 20, [''a'' \<mapsto> True])] (init rnd0 0))) = 243 / 2000 \<and>
   rpm (run rnd0 [(1 / 20, [''a'' \<mapsto> True])] (init rnd0 0)) = 900 \<and>
   rpm (update rnd0 [''w'' \<mapsto> True, ''z'' \<mapsto> True] 0
          (run rnd0 [(1 / 20, [''a'' \<mapsto> True])] (init rnd0 0))) = 1400 \<and>
   \<not> leftSignal (run rnd0 [(1 / 20, [''a'' \<mapsto> True])] (init rnd0 0)) \<and>
   leftSignal (update rnd0 [''w'' \<mapsto> True, ''z'' \<mapsto> True] 0
                 (run rnd0 [(1 / 20, [''a'' \<mapsto> True])] (init rnd0 0)))"
  by (simp add: update_steeringInput update_rpm update_speed update_leftSignal steer_next_def speed_next_def
        held_def init_def)

subsection \<open>Steering strength\<close>

lemma steeringStrength_linear: "steeringStrength v = 1.8 - 0.007 * v"
  by (simp add: steeringStrength_def lerp_def algebra_simps)

lemma speed_next_throttle:
  assumes "held ks ''w''" "\<not> held ks ''s''" "0 \<le> v" "v \<le> 260"
  shows "min 260 (v + 1) \<le> speed_next ks (1 / 20) v"
proof -
  have "speed_next ks (1 / 20) v = max 0 (min 260 ((v + 6) * (393 / 400)))"
    using assms(1,2) by (simp add: speed_next_def Let_def algebra_simps)
  moreover have "v + 1 \<le> (v + 6) * (393 / 400)"
    using assms(3,4) by (simp add: algebra_simps)
  ultimately show ?thesis by linarith
qed

lemma run_throttle:
  assumes w: "held ks ''w''" and nb: "\<not> held ks ''s''"
  shows "min 260 (real n) \<le> speed (run rnd (replicate n (1 / 20, ks)) (init rnd start))"
proof (induction n)
  case 0
  show ?case by (simp add: init_def)
next
  case (Suc n)
  let ?s = "run rnd (replicate n (1 / 20, ks)) (init rnd start)"
  have b: "0 \<le> speed ?s \<and> speed ?s \<le> 260" by (rule run_speed_bounds)
  have step: "min 260 (speed ?s + 1) \<le> speed_next ks (1 / 20) (speed ?s)"
    using w nb b by (intro speed_next_throttle) simp_all
  have "run rnd (replicate (Suc n) (1 / 20, ks)) (init rnd start) = update rnd ks (1 / 20) ?s"
    unfolding replicate_Suc_snoc run_snoc ..
  then have eq: "speed (run rnd (replicate (Suc n) (1 / 20, ks)) (init rnd start))
      = speed_next ks (1 / 20) (speed ?s)"
    by (simp only: update_speed)
  have "real (Suc n) = real n + 1" by simp
  then have "min 260 (real (Suc n)) \<le> min 260 (speed ?s + 1)"
    using Suc.IH by linarith
  then show ?case using step eq by linarith
qed

text \<open>
  Claim C2. The claim says that the steering strength is 0.4 at every speed of 200 km/h or
  more. The code evaluates the unclamped \<open>lerp\<close> at \<open>speed / 200\<close>, which exceeds 1
  above 200 km/h: the strength is \<open>1.8 - 0.007 * speed\<close> at every speed. The theorem
  evaluates it at the top speed 260 km/h, which 260 ticks of 0.05 s with the throttle held
  reach from the initial state: the strength there is \<open>-0.02\<close>, below 0.4 and negative.
  At 0 and at 200 km/h it is 1.8 and 0.4, as the claim says.
\<close>

theorem C2_strength_at_top_speed:
  "speed (run rnd (replicate 260 (1 / 20, [''w'' \<mapsto> True])) (init rnd start)) = 260 \<and>
   steeringStrength 260 = - 0.02 \<and> steeringStrength 200 = 0.4 \<and> steeringStrength 0 = 1.8"
proof -
  have "260 \<le> speed (run rnd (replicate 260 (1 / 20, [''w'' \<mapsto> True])) (init rnd start))"
    using run_throttle[of "[''w'' \<mapsto> True]" 260 rnd start] by (simp add: held_def)
  moreover have "speed (run rnd (replicate 260 (1 / 20, [''w'' \<mapsto> True])) (init rnd start)) \<le> 260"
    using run_speed_bounds by blast
  ultimately show ?thesis by (simp add: steeringStrength_linear)
qed

subsection \<open>Engine speed\<close>

text \<open>
  Claim C3. After every tick, from any state and under any key table and \<open>dt\<close>, the rpm
  lies in \<open>[0, 7500]\<close> and equals \<open>clamp(900 + speed * 40 + (throttle held ? 500 : 0), 0, 7500)\<close>,
  where \<open>speed\<close> is the speed stored by the same tick.
\<close>

theorem C3_rpm:
  "0 \<le> rpm (update rnd ks dt s) \<and> rpm (update rnd ks dt s) \<le> 7500 \<and>
   rpm (update rnd ks dt s) =
     max 0 (min 7500 (900 + speed (update rnd ks dt s) * 40 + (if held ks ''w'' then 500 else 0)))"
proof -
  have "0 \<le> speed (update rnd ks dt s)"
    unfolding update_speed using speed_next_bounds by blast
  then show ?thesis
    unfolding update_rpm_after by (simp add: min_def max_def)
qed

text \<open>
  The theorem at the first tick of 0.05 s with the throttle held: speed 5.895, rpm 1635.8.
\<close>

theorem C3_rpm_witness:
  "rpm (update rnd0 [''w'' \<mapsto> True] (1 / 20) (init rnd0 0)) = 8179 / 5 \<and>
   speed (update rnd0 [''w'' \<mapsto> True] (1 / 20) (init rnd0 0)) = 1179 / 200"
  using C3_rpm [of rnd0 "[''w'' \<mapsto> True]" "1 / 20" "init rnd0 0"]
  by (simp add: update_rpm update_speed speed_next_def held_def init_def)

subsection \<open>Speed bounds\<close>

text \<open>
  Claim C4. For every list \<open>fs\<close> of ticks, with any \<open>dt\<close> values and key tables, the speed
  lies in \<open>[0, 260]\<close> at the end of every tick: after the first \<open>n\<close> ticks of \<open>fs\<close>, for
  every \<open>n\<close>.
\<close>

theorem C4_speed_bounds:
  "0 \<le> speed (run rnd (take n fs) (init rnd start)) \<and>
   speed (run rnd (take n fs) (init rnd start)) \<le> 260"
  by (rule run_speed_bounds)

subsection \<open>Traffic respawn\<close>


















subsection \<open>Signals\<close>

text \<open>
  Claim C6. The signal text follows the table: (on, on, on) gives Hazard, (on, off, on)
  Left, (off, on, on) Right; a dark blink phase gives Off, and so do two signals that are
  off. The text that a tick writes to the HUD is this function of the flags and the blink
  phase that the tick has stored.
\<close>

theorem C6_signal_table:
  "signalText True True True = ''Hazard'' \<and>
   signalText True False True = ''Left'' \<and>
   signalText False True True = ''Right'' \<and>
   (\<forall>l r. signalText l r False = ''Off'') \<and>
   (\<forall>b. signalText False False b = ''Off'') \<and>
   signalEl_text (update rnd ks dt s) =
     signalText (leftSignal (update rnd ks dt s)) (rightSignal (update rnd ks dt s))
       (signalBlink (update rnd ks dt s))"
  by (simp add: signalText_def update_signalEl_text)

text \<open>
  Claim C7. A tick in which the left-signal key Z and the right-signal key X are both held
  ends with both signal flags off, whatever they were before.
\<close>

theorem C7_both_signal_keys:
  "held ks ''z'' \<Longrightarrow> held ks ''x'' \<Longrightarrow>
   \<not> leftSignal (update rnd ks dt s) \<and> \<not> rightSignal (update rnd ks dt s)"
  by (simp add: update_leftSignal update_rightSignal)

text \<open>
  The theorem at a state whose left signal is on.
\<close>

theorem C7_both_signal_keys_witness:
  "held [''z'' \<mapsto> True, ''x'' \<mapsto> True] ''z'' \<and> held [''z'' \<mapsto> True, ''x'' \<mapsto> True] ''x'' \<and>
   leftSignal ((init rnd0 0)\<lparr>leftSignal := True\<rparr>) \<and>
   \<not> leftSignal (update rnd0 [''z'' \<mapsto> True, ''x'' \<mapsto> True] (1 / 20) ((init rnd0 0)\<lparr>leftSignal := True\<rparr>)) \<and>
   \<not> rightSignal (update rnd0 [''z'' \<mapsto> True, ''x'' \<mapsto> True] (1 / 20) ((init rnd0 0)\<lparr>leftSignal := True\<rparr>))"
  using C7_both_signal_keys [of "[''z'' \<mapsto> True, ''x'' \<mapsto> True]" rnd0 "1 / 20" "(init rnd0 0)\<lparr>leftSignal := True\<rparr>"]
  by (simp add: held_def)

subsection \<open>Steering bound\<close>

text \<open>
  Claim C10. After every tick, from any state, the magnitude of the steering input is at
  most 0.9 and that of the steering-wheel angle at most 0.63; the steering input is neither
  1 nor -1. The same bound holds at every tick boundary of a run from the initial state,
  the start included.
\<close>

theorem C10_steering_bound:
  "\<bar>steeringInput (update rnd ks dt s)\<bar> \<le> 0.9 \<and>
   \<bar>steeringAngle (update rnd ks dt s)\<bar> \<le> 0.63 \<and>
   steeringInput (update rnd ks dt s) \<noteq> 1 \<and> steeringInput (update rnd ks dt s) \<noteq> - 1 \<and>
   \<bar>steeringInput (run rnd (take n fs) (init rnd start))\<bar> \<le> 0.9 \<and>
   steeringInput (run rnd (take n fs) (init rnd start)) \<noteq> 1 \<and>
   steeringInput (run rnd (take n fs) (init rnd start)) \<noteq> - 1"
proof -
  have a: "\<bar>steeringInput (update rnd ks dt s)\<bar> \<le> 0.9"
    unfolding update_steeringInput by (rule steer_next_abs)
  have "steeringAngle (update rnd ks dt s) = steeringInput (update rnd ks dt s) * 0.7"
    unfolding update_steeringAngle update_steeringInput ..
  then have b: "\<bar>steeringAngle (update rnd ks dt s)\<bar> \<le> 0.63"
    using a by (simp add: abs_mult)
  have c: "\<bar>steeringInput (run rnd (take n fs) (init rnd start))\<bar> \<le> 0.9"
    by (rule run_steer_bound)
  show ?thesis using a b c by auto
qed

subsection \<open>Blink timer\<close>

lemma run_timer_lower:
  "\<forall>f \<in> set fs. 0 \<le> fst f \<Longrightarrow> 0 \<le> signalTimer (run rnd fs (init rnd start))"
proof (induction fs rule: rev_induct)
  case Nil
  show ?case by (simp add: init_def)
next
  case (snoc f fs)
  obtain dt ks where f: "f = (dt, ks)" by (cases f)
  have "0 \<le> dt" using snoc.prems by (simp add: f)
  moreover have "0 \<le> signalTimer (run rnd fs (init rnd start))"
    using snoc.IH snoc.prems by simp
  ultimately show ?case unfolding f run_snoc update_signalTimer by simp
qed

lemma run_timer_replicate:
  "0 \<le> dt \<Longrightarrow> real n * dt \<le> 1 / 2 \<Longrightarrow>
   signalTimer (run rnd (replicate n (dt, ks)) (init rnd start)) = real n * dt"
proof (induction n)
  case 0
  show ?case by (simp add: init_def)
next
  case (Suc n)
  have le: "real n * dt \<le> real (Suc n) * dt"
    using Suc.prems(1) by (simp add: algebra_simps)
  then have ih: "signalTimer (run rnd (replicate n (dt, ks)) (init rnd start)) = real n * dt"
    using Suc by simp
  have "signalTimer (run rnd (replicate (Suc n) (dt, ks)) (init rnd start))
        = (if real n * dt + dt > 0.5 then 0 else real n * dt + dt)"
    unfolding replicate_Suc_snoc run_snoc update_signalTimer ih ..
  moreover have "real n * dt + dt = real (Suc n) * dt"
    by (simp add: algebra_simps)
  ultimately show ?case using Suc.prems(2) by simp
qed

text \<open>
  Claim C9, as amended. In a run from the initial state whose \<open>dt\<close> values are not
  negative, the blink timer lies in the closed interval \<open>[0, 0.5]\<close> at the end of every
  tick. In every tick, from any state, the timer accumulates \<open>dt\<close>; when the sum exceeds 0.5
  it is reset to 0 and the blink phase is negated, otherwise the sum is kept and the phase
  is unchanged. The phase does not depend on the key table.
\<close>

theorem C9_blink_timer:
  "((\<forall>f \<in> set fs. 0 \<le> fst f) \<longrightarrow>
      0 \<le> signalTimer (run rnd fs (init rnd start)) \<and>
      signalTimer (run rnd fs (init rnd start)) \<le> 0.5) \<and>
   signalTimer (update rnd ks dt s) = (if signalTimer s + dt > 0.5 then 0 else signalTimer s + dt) \<and>
   signalBlink (update rnd ks dt s) =
     (if signalTimer s + dt > 0.5 then \<not> signalBlink s else signalBlink s) \<and>
   signalBlink (update rnd ks dt s) = signalBlink (update rnd Map.empty dt s)"
  using run_timer_lower[of fs rnd start] run_timer_upper[of rnd fs start]
  by (simp add: update_signalTimer update_signalBlink)

text \<open>
  The theorem at a run of two ticks.
\<close>

theorem C9_blink_timer_witness:
  "(0 :: real) \<le> 1 / 32 \<and> (0 :: real) \<le> 1 / 2 \<and>
   0 \<le> signalTimer (run rnd0 [(1 / 32, Map.empty), (1 / 2, [''z'' \<mapsto> True])] (init rnd0 0)) \<and>
   signalTimer (run rnd0 [(1 / 32, Map.empty), (1 / 2, [''z'' \<mapsto> True])] (init rnd0 0)) \<le> 0.5"
  using C9_blink_timer [of "[(1 / 32, Map.empty), (1 / 2, [''z'' \<mapsto> True])]" rnd0 0]
  by (simp del: run.simps)

text \<open>
  Claim C9 as stated fails at both ends of \<open>[0, 0.5)\<close>. Sixteen ticks of 1/32 s bring the
  timer to exactly 0.5, which line 203 does not reset, since 0.5 does not exceed 0.5. A
  tick with a negative \<open>dt\<close> leaves the timer negative.
\<close>

theorem C9_counterexample:
  "signalTimer (run rnd0 (replicate 16 (1 / 32, Map.empty)) (init rnd0 0)) = 1 / 2 \<and>
   \<not> signalTimer (run rnd0 (replicate 16 (1 / 32, Map.empty)) (init rnd0 0)) < 1 / 2 \<and>
   signalTimer (update rnd0 Map.empty (- (1 / 100)) (init rnd0 0)) = - (1 / 100)"
  using run_timer_replicate [of "1 / 32" 16 rnd0 Map.empty 0]
  by (simp add: update_signalTimer init_def)

end
